theory Spec2Isabelle
  imports Complex_Main
begin

section \<open>JavaScript values\<close>

text \<open>
  A Number value: a finite number (a real here; the two zeros are one value, which the
  operations of this code, \<^verbatim>\<open><\<close>, \<^verbatim>\<open>||\<close> and the conversion to a string, do not tell apart),
  NaN, or one of the infinities.
\<close>

datatype number = Finite real | NaN | PosInfinity | NegInfinity

text \<open>
  The values that flow through \<^verbatim>\<open>rx-request.js\<close>: primitives and plain objects. A plain
  object is the list of its enumerable properties in \<^verbatim>\<open>for ... in\<close> order. Arrays and
  functions are not represented.
\<close>

datatype jsval =
    JUndefined
  | JNull
  | JBool bool
  | JNum number
  | JStr string
  | JObj "(string \<times> jsval) list"

text \<open>A DOM tree: an element has a local name and child nodes; a text node has its data.\<close>

datatype node = Element string "node list" | Text string

text \<open>
  What a response body can be: a language value, a parsed document (its child nodes) or an
  opaque host object such as an ArrayBuffer or a Blob.
\<close>

datatype payload = Val jsval | Doc "node list" | Host string

text \<open>
  What the code takes from the engine and the host, as it finds them: \<^verbatim>\<open>JSON.parse\<close> (None
  when it throws), \<^verbatim>\<open>new DOMParser().parseFromString(text, type)\<close>, the conversion of a
  string to a number that the unary \<^verbatim>\<open>+\<close> applies (ToNumber), and the conversion of a finite
  number to a string (Number::toString). The model fixes none of the four.
\<close>

record runtime =
  JSON_parse :: "string \<Rightarrow> jsval option"
  DOMParser_parseFromString :: "string \<Rightarrow> string \<Rightarrow> payload"
  ToNumber :: "string \<Rightarrow> number"
  Number_toString :: "real \<Rightarrow> string"

text \<open>The index of a character of a string, as a property key: its decimal digits (a
  string has fewer than \<open>2 ^ 53\<close> characters, and an index below \<open>10 ^ 21\<close> is printed so).\<close>

definition digit :: "nat \<Rightarrow> char" where
  "digit d = ''0123456789'' ! d"

fun digits :: "nat \<Rightarrow> string" where
  "digits n = (if n < 10 then [digit n] else digits (n div 10) @ [digit (n mod 10)])"

declare digits.simps [simp del]

text \<open>\<^verbatim>\<open>String(v)\<close>, as a template literal and \<^verbatim>\<open>toString()\<close> apply it.\<close>

fun number_toString :: "runtime \<Rightarrow> number \<Rightarrow> string" where
  "number_toString rt (Finite x) = Number_toString rt x"
| "number_toString rt NaN = ''NaN''"
| "number_toString rt PosInfinity = ''Infinity''"
| "number_toString rt NegInfinity = ''-Infinity''"

fun js_toString :: "runtime \<Rightarrow> jsval \<Rightarrow> string" where
  "js_toString rt JUndefined = ''undefined''"
| "js_toString rt JNull = ''null''"
| "js_toString rt (JBool b) = (if b then ''true'' else ''false'')"
| "js_toString rt (JNum n) = number_toString rt n"
| "js_toString rt (JStr s) = s"
| "js_toString rt (JObj kvs) = ''[object Object]''"

text \<open>Truthiness, as \<^verbatim>\<open>||\<close>, \<^verbatim>\<open>&&\<close>, \<^verbatim>\<open>?:\<close> and \<^verbatim>\<open>if\<close> test it.\<close>

fun truthy :: "jsval \<Rightarrow> bool" where
  "truthy JUndefined = False"
| "truthy JNull = False"
| "truthy (JBool b) = b"
| "truthy (JNum n) = (n \<noteq> Finite 0 \<and> n \<noteq> NaN)"
| "truthy (JStr s) = (s \<noteq> [])"
| "truthy (JObj kvs) = True"

fun js_typeof :: "jsval \<Rightarrow> string" where
  "js_typeof JUndefined = ''undefined''"
| "js_typeof JNull = ''object''"
| "js_typeof (JBool b) = ''boolean''"
| "js_typeof (JNum n) = ''number''"
| "js_typeof (JStr s) = ''string''"
| "js_typeof (JObj kvs) = ''object''"

text \<open>\<^verbatim>\<open>status < 0\<close> on a number: false for NaN.\<close>

fun less_than_zero :: "number \<Rightarrow> bool" where
  "less_than_zero (Finite x) = (x < 0)"
| "less_than_zero NaN = False"
| "less_than_zero PosInfinity = False"
| "less_than_zero NegInfinity = True"

section \<open>XML serialization: escapeXml, objToXML\<close>

definition ENTITIES_REG :: "char \<Rightarrow> bool" where
  "ENTITIES_REG c = (c \<in> set ''&<>'')"

definition ENTITIES :: "(char \<times> string) list" where
  "ENTITIES = [(CHR ''&'', ''&amp;''), (CHR ''<'', ''&lt;''), (CHR ''>'', ''&gt;'')]"

text \<open>
  \<^verbatim>\<open>s.replace(ENTITIES_REG, tag => ENTITIES[tag])\<close>: the regular expression is global and
  matches one character of the class at a time; a replacer that returns undefined would
  insert the text "undefined".
\<close>

definition replace_entities :: "string \<Rightarrow> string" where
  "replace_entities s =
     concat (map (\<lambda>c. if ENTITIES_REG c
                       then (case map_of ENTITIES c of Some e \<Rightarrow> e | None \<Rightarrow> ''undefined'')
                       else [c]) s)"

definition escapeXml :: "runtime \<Rightarrow> jsval \<Rightarrow> string" where
  "escapeXml rt xml = replace_entities (js_toString rt (if truthy xml then xml else JStr []))"

text \<open>The properties \<^verbatim>\<open>for ... in\<close> enumerates on a string primitive: its indices.\<close>

definition string_props :: "string \<Rightarrow> (string \<times> jsval) list" where
  "string_props s = map (\<lambda>i. (digits i, JStr [s ! i])) [0..<length s]"

definition element :: "string \<Rightarrow> string \<Rightarrow> string" where
  "element attrName inner = ''<'' @ attrName @ ''>'' @ inner @ ''</'' @ attrName @ ''>''"

text \<open>
  \<^verbatim>\<open>objToXML\<close>: the loop over the enumerable properties is \<open>objToXML_loop\<close>. A primitive
  other than a string has no enumerable property; the properties of a string are strings of
  one character, for which \<^verbatim>\<open>typeof\<close> is not "object".
\<close>

fun objToXML :: "runtime \<Rightarrow> jsval \<Rightarrow> string"
  and objToXML_loop :: "runtime \<Rightarrow> (string \<times> jsval) list \<Rightarrow> string" where
  "objToXML rt (JObj kvs) = objToXML_loop rt kvs"
| "objToXML rt (JStr s) =
     concat (map (\<lambda>(attrName, attr). element attrName (escapeXml rt attr)) (string_props s))"
| "objToXML rt JUndefined = []"
| "objToXML rt JNull = []"
| "objToXML rt (JBool b) = []"
| "objToXML rt (JNum n) = []"
| "objToXML_loop rt [] = []"
| "objToXML_loop rt ((attrName, attr) # rest) =
     element attrName (if js_typeof attr = ''object'' then objToXML rt attr else escapeXml rt attr)
     @ objToXML_loop rt rest"

text \<open>
  \<^verbatim>\<open>str.replace(searchString, replaceString)\<close> with two strings: the first occurrence of the
  search string is replaced, and in the replacement text \<^verbatim>\<open>$$\<close> stands for a dollar sign,
  \<^verbatim>\<open>$&\<close> for the matched text, \<^verbatim>\<open>$`\<close> for the text before the match and \<^verbatim>\<open>$'\<close> for the text
  after it (GetSubstitution; a string pattern has no capture groups, so \<^verbatim>\<open>$1\<close> and \<^verbatim>\<open>$<\<close>
  stay as they are).
\<close>

fun GetSubstitution :: "string \<Rightarrow> string \<Rightarrow> string \<Rightarrow> string \<Rightarrow> string" where
  "GetSubstitution matched preceding following [] = []"
| "GetSubstitution matched preceding following [c] = [c]"
| "GetSubstitution matched preceding following (c # d # r) =
     (if c = CHR ''$'' \<and> d = CHR ''$'' then CHR ''$'' # GetSubstitution matched preceding following r
      else if c = CHR ''$'' \<and> d = CHR ''&'' then matched @ GetSubstitution matched preceding following r
      else if c = CHR ''$'' \<and> d = CHR 0x60 then preceding @ GetSubstitution matched preceding following r
      else if c = CHR ''$'' \<and> d = CHR 0x27 then following @ GetSubstitution matched preceding following r
      else c # GetSubstitution matched preceding following (d # r))"

fun find_first :: "string \<Rightarrow> string \<Rightarrow> string \<Rightarrow> (string \<times> string) option" where
  "find_first pat preceding [] = (if pat = [] then Some (preceding, []) else None)"
| "find_first pat preceding (c # cs) =
     (if take (length pat) (c # cs) = pat then Some (preceding, drop (length pat) (c # cs))
      else find_first pat (preceding @ [c]) cs)"

definition String_replace :: "string \<Rightarrow> string \<Rightarrow> string \<Rightarrow> string" where
  "String_replace str searchString replaceString =
     (case find_first searchString [] str of
        None \<Rightarrow> str
      | Some (preceding, following) \<Rightarrow>
          preceding @ GetSubstitution searchString preceding following replaceString @ following)"

text \<open>A replacement pattern somewhere in a text: a dollar sign with another dollar sign, an
  ampersand, a backquote or an apostrophe right after it.\<close>

fun replacement_pattern :: "string \<Rightarrow> bool" where
  "replacement_pattern (c # d # r) =
     (c = CHR ''$'' \<and> d \<in> set [CHR ''$'', CHR ''&'', CHR 0x60, CHR 0x27]
      \<or> replacement_pattern (d # r))"
| "replacement_pattern [c] = False"
| "replacement_pattern [] = False"

definition METHOD_CALL_XML :: string where
  \<open>METHOD_CALL_XML =
     ''<RestCallMethod xmlns:i="http://www.w3.org/2001/XMLSchema-instance">{payload}</RestCallMethod>''\<close>

section \<open>The response envelope: RestCallResult\<close>

text \<open>\<^verbatim>\<open>textContent\<close>: the text of all descendants, in document order.\<close>

fun textContent :: "node \<Rightarrow> string" where
  "textContent (Text t) = t"
| "textContent (Element n cs) = concat (map textContent cs)"

text \<open>
  \<^verbatim>\<open>querySelector\<close> with a type selector, in an XML document: the first element with that
  name among the descendants, in document order (an element comes before its children,
  and these before its following siblings), or null. \<open>first_match\<close> searches a list of
  sibling nodes and what is below them.
\<close>

fun first_match :: "string \<Rightarrow> node list \<Rightarrow> node option" where
  "first_match sel [] = None"
| "first_match sel (Text t # rest) = first_match sel rest"
| "first_match sel (Element n cs # rest) =
     (if n = sel then Some (Element n cs)
      else (case first_match sel cs of Some e \<Rightarrow> Some e | None \<Rightarrow> first_match sel rest))"

fun childNodes :: "node \<Rightarrow> node list" where
  "childNodes (Element n cs) = cs"
| "childNodes (Text t) = []"

definition querySelector :: "string \<Rightarrow> node \<Rightarrow> node option" where
  "querySelector sel e = first_match sel (childNodes e)"

record rest_call_method_error =
  rcm_name :: string
  rcm_url :: string
  rcm_code :: jsval
  rcm_message :: string

text \<open>\<^verbatim>\<open>RestCallMethodError(url, { code, method, message })\<close>; an absent property is None.\<close>

definition RestCallMethodError ::
  "runtime \<Rightarrow> string \<Rightarrow> jsval \<Rightarrow> string option \<Rightarrow> string option \<Rightarrow> rest_call_method_error" where
  "RestCallMethodError rt url code method message =
     \<lparr> rcm_name = ''RestCallMethodError'',
       rcm_url = url,
       rcm_code = code,
       rcm_message =
         ''restmethodcall: webservice error status '' @ js_toString rt code @ '' ('' @ url @ '')''
         @ (case method of None \<Rightarrow> [] | Some m \<Rightarrow> if m = [] then [] else '' ('' @ m @ '')'')
         @ (case message of None \<Rightarrow> [] | Some m \<Rightarrow> if m = [] then [] else CHR 0x0A # m) \<rparr>"

text \<open>What a call can throw: a TypeError of the engine (a property read on null, a call of
  something that is not a function) or the error the code raises itself.\<close>

datatype thrown = TypeError | Thrown rest_call_method_error

record rest_call_result =
  rcr_output :: "node option"
  rcr_status :: number

text \<open>
  \<^verbatim>\<open>RestCallResult(response, url, scriptInfo)\<close>. Only a document has a \<^verbatim>\<open>querySelector\<close>
  method; a null result of either \<^verbatim>\<open>querySelector\<close> call is dereferenced without a check.
\<close>

definition RestCallResult ::
  "runtime \<Rightarrow> payload \<Rightarrow> string \<Rightarrow> string option \<Rightarrow> thrown + rest_call_result" where
  "RestCallResult rt response url scriptInfo =
     (case response of
        Doc nodes \<Rightarrow>
          (case first_match ''RestCallResult'' nodes of
             None \<Rightarrow> Inl TypeError
           | Some restCallResult \<Rightarrow>
               (case querySelector ''Status'' restCallResult of
                  None \<Rightarrow> Inl TypeError
                | Some s \<Rightarrow>
                    let status = ToNumber rt (textContent s) in
                    if less_than_zero status
                    then Inl (Thrown (RestCallMethodError rt url (JNum status) scriptInfo None))
                    else Inr \<lparr> rcr_output = querySelector ''Output'' restCallResult,
                               rcr_status = status \<rparr>))
      | Val v \<Rightarrow> Inl TypeError
      | Host h \<Rightarrow> Inl TypeError)"

section \<open>The transport handle, the failures and the outcome\<close>

text \<open>
  What the code reads of an XMLHttpRequest: its properties, as the transport reports them
  at that moment. The calls the code makes on the handle are listed by the function that
  makes them (\<open>xhr_call\<close> below).
\<close>

record XMLHttpRequest =
  readyState :: nat
  status :: nat
  statusText :: string
  response :: payload
  responseText :: string
  responseURL :: string
  getResponseHeader :: "string \<Rightarrow> string option"

text \<open>The event a listener receives: its target and the total of bytes. An event has no
  \<^verbatim>\<open>status\<close> property.\<close>

record ProgressEvent =
  target :: XMLHttpRequest
  total :: nat

text \<open>The second argument of \<^verbatim>\<open>RequestError\<close>: \<^verbatim>\<open>onLoad\<close> passes the handle
  (\<^verbatim>\<open>evt.target\<close>), \<^verbatim>\<open>onError\<close> passes the event itself.\<close>

datatype xhr_argument = Handle XMLHttpRequest | Event ProgressEvent

fun status_property :: "xhr_argument \<Rightarrow> jsval" where
  "status_property (Handle x) = JNum (Finite (real (status x)))"
| "status_property (Event e) = JUndefined"

record request_error =
  err_name :: string
  err_url :: string
  err_xhr :: xhr_argument
  err_code :: jsval
  err_reason :: jsval
  err_message :: string

text \<open>\<^verbatim>\<open>RequestError(url, xhr, message, reason = null)\<close>: an argument left out is undefined
  and takes the default.\<close>

definition RequestError :: "string \<Rightarrow> xhr_argument \<Rightarrow> string \<Rightarrow> jsval \<Rightarrow> request_error" where
  "RequestError url xhr message reason =
     \<lparr> err_name = ''RequestError'',
       err_url = url,
       err_xhr = xhr,
       err_code = status_property xhr,
       err_reason = (if reason = JUndefined then JNull else reason),
       err_message = ''request: '' @ message @ '' ('' @ url @ '')'' \<rparr>"

text \<open>The options object. The field \<open>http_method\<close> is the property \<^verbatim>\<open>method\<close>; an absent
  property is None.\<close>

record RequestSpec =
  url :: string
  http_method :: "string option"
  data :: jsval
  headers :: "(string \<times> string) list option"
  format :: "string option"
  withMetadata :: bool
  responseHeaders :: "string list option"
  ScriptInfo :: "string option"

text \<open>
  The object that \<^verbatim>\<open>getResponseHeadersList\<close> fills: its own properties, from a name to the
  value stored (None inside is null, the value of a header the transport does not report),
  and whether its prototype has become null.
\<close>

record headers_object =
  own_properties :: "string \<rightharpoonup> string option"
  prototype_is_null :: bool

text \<open>The record \<^verbatim>\<open>{ blob, size, duration, headers, url, xhr }\<close>; \<open>out_headers\<close> is None
  when the variable \<^verbatim>\<open>headers\<close> is undefined.\<close>

record RequestOutcome =
  out_blob :: payload
  out_size :: nat
  out_duration :: int
  out_headers :: "headers_object option"
  out_url :: string
  out_xhr :: XMLHttpRequest

datatype emitted = Bare payload | Outcome RequestOutcome

text \<open>The calls on the observer, in the order the code makes them.\<close>

datatype notification = OnNext emitted | OnError request_error | OnCompleted

definition toJSONForIE :: "runtime \<Rightarrow> string \<Rightarrow> jsval" where
  "toJSONForIE rt blob = (case JSON_parse rt blob of Some v \<Rightarrow> v | None \<Rightarrow> JNull)"

text \<open>
  \<^verbatim>\<open>getResponseHeadersList\<close>: the loop over the indices of the list is
  \<open>getResponseHeadersList_loop\<close>. The assignment \<^verbatim>\<open>headers[header] = v\<close> on an object made by
  \<^verbatim>\<open>{}\<close> stores an own property, except for the name \<^verbatim>\<open>__proto__\<close>: that assignment runs the
  setter of \<^verbatim>\<open>Object.prototype\<close>, which makes the prototype null when \<^verbatim>\<open>v\<close> is null, does
  nothing when \<^verbatim>\<open>v\<close> is a string, and stores no own property. Once the prototype is null
  the setter is gone and \<^verbatim>\<open>__proto__\<close> is a name like any other.
\<close>

fun getResponseHeadersList_loop ::
  "XMLHttpRequest \<Rightarrow> string list \<Rightarrow> headers_object \<Rightarrow> headers_object" where
  "getResponseHeadersList_loop xhr [] hdrs = hdrs"
| "getResponseHeadersList_loop xhr (header # rest) hdrs =
     getResponseHeadersList_loop xhr rest
       (if header = ''__proto__'' \<and> \<not> prototype_is_null hdrs then
          (case getResponseHeader xhr header of
             None \<Rightarrow> hdrs\<lparr> prototype_is_null := True \<rparr>
           | Some v \<Rightarrow> hdrs)
        else hdrs\<lparr> own_properties := (own_properties hdrs)(header \<mapsto> getResponseHeader xhr header) \<rparr>)"

definition getResponseHeadersList :: "XMLHttpRequest \<Rightarrow> string list \<Rightarrow> headers_object" where
  "getResponseHeadersList xhr headersList =
     getResponseHeadersList_loop xhr headersList
       \<lparr> own_properties = Map.empty, prototype_is_null = False \<rparr>"

section \<open>The request observable\<close>

datatype listener = Listener_onLoad | Listener_onError

datatype xhr_call =
    Open string string bool
  | Set_responseType string
  | SetRequestHeader string string
  | AddEventListener string listener bool
  | Send jsval
  | RemoveEventListener string listener
  | Abort

text \<open>The variables of one subscription: the destructured options, \<^verbatim>\<open>xhr\<close> (None once it
  is null) and \<^verbatim>\<open>sent\<close>.\<close>

record subscription =
  options :: RequestSpec
  xhr :: "XMLHttpRequest option"
  sent :: int

text \<open>\<^verbatim>\<open>s || d\<close> on an optional string: the absent and the empty string are falsy.\<close>

definition or_else :: "string option \<Rightarrow> string \<Rightarrow> string" where
  "or_else s d = (case s of None \<Rightarrow> d | Some v \<Rightarrow> if v = [] then d else v)"

text \<open>
  The body of the function given to \<^verbatim>\<open>Observable.create\<close>, up to \<^verbatim>\<open>xhr.send(data)\<close>:
  the calls made on the new handle \<open>x\<close>, and the variables of the subscription. \<open>now\<close> is
  what \<^verbatim>\<open>Date.now()\<close> returns.
\<close>

definition subscribe :: "RequestSpec \<Rightarrow> XMLHttpRequest \<Rightarrow> int \<Rightarrow> xhr_call list \<times> subscription" where
  "subscribe opts x now =
     ([Open (or_else (http_method opts) ''GET'') (url opts) True,
       Set_responseType (if format opts = Some ''document'' then ''text''
                         else or_else (format opts) ''text'')]
      @ (case headers opts of
           None \<Rightarrow> []
         | Some hs \<Rightarrow> map (\<lambda>(name, v). SetRequestHeader name v) hs)
      @ [AddEventListener ''load'' Listener_onLoad False,
         AddEventListener ''error'' Listener_onError False,
         Send (data opts)],
      \<lparr> options = opts, xhr = Some x, sent = now \<rparr>)"

text \<open>\<^verbatim>\<open>blob == null\<close>: true of null and of undefined.\<close>

fun is_null :: "payload \<Rightarrow> bool" where
  "is_null (Val JNull) = True"
| "is_null (Val JUndefined) = True"
| "is_null p = False"

definition null_response_message :: "string option \<Rightarrow> string" where
  \<open>null_response_message fmt =
     ''null response with format "'' @ (case fmt of None \<Rightarrow> ''undefined'' | Some f \<Rightarrow> f)
     @ ''" (error while parsing or wrong content-type)''\<close>

text \<open>The load listener: the calls it makes on the observer.\<close>

definition onLoad :: "runtime \<Rightarrow> subscription \<Rightarrow> int \<Rightarrow> ProgressEvent \<Rightarrow> notification list" where
  "onLoad rt c now evt =
     (let x = target evt; s = status x in
      if s < 200 \<or> s \<ge> 300 then
        [OnError (RequestError (url (options c)) (Handle x) (statusText x) JUndefined)]
      else
        let duration = now - sent c;
            blob = (if format (options c) = Some ''document''
                    then DOMParser_parseFromString rt (responseText x) ''text/xml''
                    else response x);
            blob = (case blob of
                      Val (JStr text) \<Rightarrow>
                        if format (options c) = Some ''json'' then Val (toJSONForIE rt text)
                        else blob
                    | _ \<Rightarrow> blob)
        in
          if is_null blob then
            [OnError (RequestError (url (options c)) (Handle x)
                        (null_response_message (format (options c))) JUndefined)]
          else if withMetadata (options c) then
            [OnNext (Outcome
               \<lparr> out_blob = blob,
                 out_size = total evt,
                 out_duration = duration,
                 out_headers = (case responseHeaders (options c) of
                                  None \<Rightarrow> None
                                | Some l \<Rightarrow> Some (getResponseHeadersList x l)),
                 out_url = (if responseURL x \<noteq> [] then responseURL x else url (options c)),
                 out_xhr = x \<rparr>),
             OnCompleted]
          else [OnNext (Bare blob), OnCompleted])"

text \<open>The error listener.\<close>

definition onError :: "subscription \<Rightarrow> ProgressEvent \<Rightarrow> notification list" where
  "onError c e = [OnError (RequestError (url (options c)) (Event e) ''error event'' JUndefined)]"

text \<open>
  The function returned to \<^verbatim>\<open>Observable.create\<close>, run on unsubscribe: the calls it makes on
  the handle, and the variables afterwards. Reading \<^verbatim>\<open>readyState\<close> of null throws.
\<close>

definition teardown :: "subscription \<Rightarrow> thrown + (xhr_call list \<times> subscription)" where
  "teardown c =
     (case xhr c of
        None \<Rightarrow> Inl TypeError
      | Some x \<Rightarrow>
          Inr ((if 0 < readyState x \<and> readyState x < 4
                then [RemoveEventListener ''load'' Listener_onLoad,
                      RemoveEventListener ''error'' Listener_onError,
                      Abort]
                else []),
               c\<lparr> xhr := None \<rparr>))"

section \<open>The remote-call adapter\<close>

text \<open>
  The caller's options object lives in a heap, and \<^verbatim>\<open>request\<close> and \<^verbatim>\<open>restCallMethod\<close>
  receive a reference to it. An observable is the producer created over an options object,
  or such a producer mapped through \<^verbatim>\<open>RestCallResult\<close> with the url and ScriptInfo of an
  options object.
\<close>

type_synonym ref = nat

type_synonym heap = "ref \<Rightarrow> RequestSpec"

datatype observable = Created ref | Mapped observable ref

function request :: "runtime \<Rightarrow> heap \<Rightarrow> ref \<Rightarrow> heap \<times> observable"
  and restCallMethod :: "runtime \<Rightarrow> heap \<Rightarrow> ref \<Rightarrow> heap \<times> observable" where
  "request rt h r =
     (if format (h r) = Some ''rest-call-method'' then restCallMethod rt h r
      else (h, Created r))"
| "restCallMethod rt h r =
     (let h1 = h(r := (h r)\<lparr> http_method := Some ''POST'' \<rparr>);
          h2 = h1(r := (h1 r)\<lparr> headers := Some [(''Content-Type'', ''application/xml'')] \<rparr>);
          h3 = h2(r := (h2 r)\<lparr> data := JStr (String_replace METHOD_CALL_XML ''{payload}''
                                                (objToXML rt (data (h2 r)))) \<rparr>);
          h4 = h3(r := (h3 r)\<lparr> format := Some ''document'' \<rparr>)
      in case request rt h4 r of (h5, ob) \<Rightarrow> (h5, Mapped ob r))"
  by pat_completeness auto
termination
  by (relation "measure (\<lambda>a. case a of
         Inl (rt, h, r) \<Rightarrow> if format (h r) = Some ''rest-call-method'' then 2 else 0
       | Inr (rt, h, r) \<Rightarrow> 1)") auto

text \<open>The function given to \<^verbatim>\<open>map\<close>: it reads \<^verbatim>\<open>options.url\<close> and \<^verbatim>\<open>options.ScriptInfo\<close>
  when a value arrives. An outcome record has no \<^verbatim>\<open>querySelector\<close> method.\<close>

definition restCallMethod_map ::
  "runtime \<Rightarrow> heap \<Rightarrow> ref \<Rightarrow> emitted \<Rightarrow> thrown + rest_call_result" where
  "restCallMethod_map rt h r d =
     (case d of
        Bare p \<Rightarrow> RestCallResult rt p (url (h r)) (ScriptInfo (h r))
      | Outcome out \<Rightarrow> Inl TypeError)"

section \<open>Named parts and example inputs\<close>

text \<open>The payload \<^verbatim>\<open>blob\<close> as \<^verbatim>\<open>onLoad\<close> has it when it tests \<^verbatim>\<open>blob == null\<close>: the decoding
  steps of \<^verbatim>\<open>onLoad\<close> on their own, so that theorems can name their result.\<close>

definition decode :: "runtime \<Rightarrow> string option \<Rightarrow> XMLHttpRequest \<Rightarrow> payload" where
  "decode rt fmt x =
     (let blob = (if fmt = Some ''document''
                  then DOMParser_parseFromString rt (responseText x) ''text/xml''
                  else response x)
      in case blob of
           Val (JStr text) \<Rightarrow> if fmt = Some ''json'' then Val (toJSONForIE rt text) else blob
         | _ \<Rightarrow> blob)"

text \<open>The specification's words "its Status child", taken as the DOM has them: the first
  child element with that name (not a deeper descendant).\<close>

definition child_element :: "string \<Rightarrow> node \<Rightarrow> node option" where
  "child_element name e =
     find (\<lambda>n. case n of Element m cs \<Rightarrow> m = name | Text t \<Rightarrow> False) (childNodes e)"

text \<open>Inputs for the examples: a host that knows a few texts and numbers (its
  \<^verbatim>\<open>JSON.parse\<close> throws on every text but one), a finished handle, an options object and a
  subscription.\<close>

definition example_runtime :: runtime where
  \<open>example_runtime =
     \<lparr> JSON_parse =
         (\<lambda>s. if s = ''{"a":1}'' then Some (JObj [(''a'', JNum (Finite 1))]) else None),
       DOMParser_parseFromString =
         (\<lambda>text type. if text = ''<a/>'' \<and> type = ''text/xml'' then Doc [Element ''a'' []]
                       else Doc [Element ''parsererror'' []]),
       ToNumber =
         (\<lambda>s. if s = ''-3'' then Finite (- 3) else if s = ''0'' then Finite 0
               else if s = ''-1'' then Finite (- 1) else if s = ''5'' then Finite 5
               else if s = ''-1.5'' then Finite (- 3 / 2) else NaN),
       Number_toString =
         (\<lambda>x. if x = 7 then ''7'' else if x = - 3 then ''-3'' else if x = - 1 then ''-1''
               else if x = - 3 / 2 then ''-1.5'' else ''0'') \<rparr>\<close>

definition example_handle :: XMLHttpRequest where
  "example_handle =
     \<lparr> readyState = 4, status = 200, statusText = ''OK'',
       response = Val (JStr ''hello''), responseText = ''hello'',
       responseURL = ''http://h/final'',
       getResponseHeader = (\<lambda>n. if n = ''X-Total'' then Some ''42'' else None) \<rparr>"

definition example_options :: RequestSpec where
  "example_options =
     \<lparr> url = ''http://h/a'', http_method = None, data = JUndefined, headers = None,
       format = None, withMetadata = True, responseHeaders = Some [''X-Total''],
       ScriptInfo = None \<rparr>"

definition example_subscription :: subscription where
  "example_subscription = \<lparr> options = example_options, xhr = Some example_handle, sent = 1000 \<rparr>"

text \<open>A heap whose options objects all ask for a remote call with the data \<^verbatim>\<open>{a: "<x>"}\<close>.\<close>

definition example_heap :: heap where
  "example_heap =
     (\<lambda>r. example_options\<lparr> format := Some ''rest-call-method'',
                             data := JObj [(''a'', JStr ''<x>'')] \<rparr>)"

section \<open>Serialization: what objToXML renders\<close>

lemma entity_of_char:
  "(if ENTITIES_REG c
    then (case map_of ENTITIES c of Some e \<Rightarrow> e | None \<Rightarrow> ''undefined'')
    else [c]) =
   (if c = CHR ''&'' then ''&amp;'' else if c = CHR ''<'' then ''&lt;''
    else if c = CHR ''>'' then ''&gt;'' else [c])"
  by (simp add: ENTITIES_REG_def ENTITIES_def)

lemma replace_entities_chars:
  "replace_entities s =
   concat (map (\<lambda>c. if c = CHR ''&'' then ''&amp;'' else if c = CHR ''<'' then ''&lt;''
                     else if c = CHR ''>'' then ''&gt;'' else [c]) s)"
  by (simp add: replace_entities_def entity_of_char)

lemma escapeXml_JStr:
  "escapeXml rt (JStr s) =
   concat (map (\<lambda>c. if c = CHR ''&'' then ''&amp;'' else if c = CHR ''<'' then ''&lt;''
                     else if c = CHR ''>'' then ''&gt;'' else [c]) s)"
  by (cases "s = []") (simp_all add: escapeXml_def replace_entities_chars)




section \<open>The load listener\<close>

lemma onLoad_failure:
  "status (target evt) < 200 \<or> 300 \<le> status (target evt) \<Longrightarrow>
   onLoad rt c now evt =
     [OnError (RequestError (url (options c)) (Handle (target evt)) (statusText (target evt)) JUndefined)]"
  by (auto simp add: onLoad_def Let_def)

lemma onLoad_success:
  "200 \<le> status (target evt) \<Longrightarrow> status (target evt) < 300 \<Longrightarrow>
   onLoad rt c now evt =
     (if is_null (decode rt (format (options c)) (target evt)) then
        [OnError (RequestError (url (options c)) (Handle (target evt))
                    (null_response_message (format (options c))) JUndefined)]
      else if withMetadata (options c) then
        [OnNext (Outcome
           \<lparr> out_blob = decode rt (format (options c)) (target evt),
             out_size = total evt,
             out_duration = now - sent c,
             out_headers = map_option (getResponseHeadersList (target evt)) (responseHeaders (options c)),
             out_url = (if responseURL (target evt) \<noteq> [] then responseURL (target evt)
                        else url (options c)),
             out_xhr = target evt \<rparr>),
         OnCompleted]
      else [OnNext (Bare (decode rt (format (options c)) (target evt))), OnCompleted])"
  by (simp add: onLoad_def decode_def Let_def map_option_case not_less)

lemma onLoad_no_null_payload:
  "(OnNext (Bare p) \<in> set (onLoad rt c now evt) \<longrightarrow> \<not> is_null p) \<and>
   (OnNext (Outcome out) \<in> set (onLoad rt c now evt) \<longrightarrow> \<not> is_null (out_blob out))"
proof (cases "status (target evt) < 200 \<or> 300 \<le> status (target evt)")
  case True
  then show ?thesis by (simp add: onLoad_failure)
next
  case False
  then have "200 \<le> status (target evt)" "status (target evt) < 300" by auto
  then show ?thesis by (auto simp add: onLoad_success)
qed

subsection \<open>A status outside [200, 300)\<close>

text \<open>
  C1, as the specification states it, fails on the message: for a 404 response with the
  status text "Not Found" to the url http://h/a the only notification is an onError, and the
  message of its error is "request: Not Found (http://h/a)", which is not the status text.
\<close>

theorem http_error_message_counterexample:
  "onLoad example_runtime example_subscription 1005
     \<lparr> target = example_handle\<lparr> status := 404, statusText := ''Not Found'' \<rparr>, total = 0 \<rparr> =
     [OnError (RequestError ''http://h/a''
                 (Handle (example_handle\<lparr> status := 404, statusText := ''Not Found'' \<rparr>))
                 ''Not Found'' JUndefined)]
   \<and> err_message (RequestError ''http://h/a''
                    (Handle (example_handle\<lparr> status := 404, statusText := ''Not Found'' \<rparr>))
                    ''Not Found'' JUndefined)
       = ''request: Not Found (http://h/a)''
   \<and> err_message (RequestError ''http://h/a''
                    (Handle (example_handle\<lparr> status := 404, statusText := ''Not Found'' \<rparr>))
                    ''Not Found'' JUndefined)
       \<noteq> statusText (example_handle\<lparr> status := 404, statusText := ''Not Found'' \<rparr>)"
  by (simp add: onLoad_def RequestError_def example_handle_def example_subscription_def
        example_options_def)

text \<open>
  C1, amended. For every subscription (whatever its format), when the load event carries a
  status below 200 or at least 300, the load listener makes exactly one call on the
  observer: an onError with a RequestError whose code is the response status, whose xhr is
  the handle, whose url is the url of the request and whose message is the text
  "request: ", the status text, " (", the url and ")". No onNext and no onCompleted is
  delivered.
\<close>

theorem http_error_notification:
  assumes "status (target evt) < 200 \<or> 300 \<le> status (target evt)"
  shows "onLoad rt c now evt =
     [OnError \<lparr> err_name = ''RequestError'',
                err_url = url (options c),
                err_xhr = Handle (target evt),
                err_code = JNum (Finite (real (status (target evt)))),
                err_reason = JNull,
                err_message = ''request: '' @ statusText (target evt)
                              @ '' ('' @ url (options c) @ '')'' \<rparr>]"
  using assms by (simp add: onLoad_failure RequestError_def)

text \<open>The amended C1 at a 404 response.\<close>

theorem http_error_notification_witness:
  "(status (target \<lparr> target = example_handle\<lparr> status := 404, statusText := ''Not Found'' \<rparr>,
                     total = 0 \<rparr>) < 200
    \<or> 300 \<le> status (target \<lparr> target = example_handle\<lparr> status := 404, statusText := ''Not Found'' \<rparr>,
                              total = 0 \<rparr>))
   \<and> onLoad example_runtime example_subscription 1005
        \<lparr> target = example_handle\<lparr> status := 404, statusText := ''Not Found'' \<rparr>, total = 0 \<rparr> =
     [OnError \<lparr> err_name = ''RequestError'',
                err_url = ''http://h/a'',
                err_xhr = Handle (example_handle\<lparr> status := 404, statusText := ''Not Found'' \<rparr>),
                err_code = JNum (Finite 404),
                err_reason = JNull,
                err_message = ''request: Not Found (http://h/a)'' \<rparr>]"
  using http_error_notification
          [of "\<lparr> target = example_handle\<lparr> status := 404, statusText := ''Not Found'' \<rparr>, total = 0 \<rparr>"
              example_runtime example_subscription 1005]
  by (simp add: example_handle_def example_subscription_def example_options_def)

subsection \<open>The error listener\<close>

text \<open>
  C8. The failure built on a transport error event has the url of the request and a
  message, but its code is undefined, not a number: \<^verbatim>\<open>onError\<close> hands the event, not the
  handle, to \<^verbatim>\<open>RequestError\<close>, which reads \<^verbatim>\<open>status\<close> from it; the load listener hands over
  \<^verbatim>\<open>evt.target\<close>.
\<close>

theorem error_event_code_undefined:
  "onError c e =
     [OnError \<lparr> err_name = ''RequestError'',
                err_url = url (options c),
                err_xhr = Event e,
                err_code = JUndefined,
                err_reason = JNull,
                err_message = ''request: error event ('' @ url (options c) @ '')'' \<rparr>]"
  by (simp add: onError_def RequestError_def)

subsection \<open>Decoding\<close>

lemma subscribe_responseType:
  "Set_responseType ty \<in> set (fst (subscribe opts x0 t0)) \<longleftrightarrow>
   ty = (if format opts = Some ''document'' then ''text'' else or_else (format opts) ''text'')"
  by (auto simp add: subscribe_def split: option.splits)

lemma decode_document:
  "decode rt (Some ''document'') x = DOMParser_parseFromString rt (responseText x) ''text/xml''"
  by (simp add: decode_def Let_def split: payload.splits jsval.splits)

lemma decode_json_text:
  "response x = Val (JStr text) \<Longrightarrow> decode rt (Some ''json'') x = Val (toJSONForIE rt text)"
  by (simp add: decode_def)

text \<open>
  C5. For a request with the format document, the subscription sets the responseType of
  the handle to "text" and never to "document", and the payload is what the DOM parser
  makes of the response text with the type "text/xml", whatever the handle reports as
  headers or as response. For every format, on a status in [200, 300): when the decoded
  payload is null the load listener's only call is an onError with a RequestError whose
  message names the format; otherwise it delivers the payload by onNext and then
  onCompleted. No onNext ever carries a null payload.
\<close>

theorem document_text_mode_and_null_payload:
  assumes "200 \<le> status (target evt)" and "status (target evt) < 300"
  shows "(format opts = Some ''document'' \<longrightarrow>
            Set_responseType ''text'' \<in> set (fst (subscribe opts x0 t0)) \<and>
            Set_responseType ''document'' \<notin> set (fst (subscribe opts x0 t0)))
       \<and> (format (options c) = Some ''document'' \<longrightarrow>
            decode rt (format (options c)) (target evt) =
              DOMParser_parseFromString rt (responseText (target evt)) ''text/xml'' \<and>
            decode rt (format (options c)) (target evt\<lparr> getResponseHeader := g, response := b \<rparr>) =
              decode rt (format (options c)) (target evt))
       \<and> (is_null (decode rt (format (options c)) (target evt)) \<longrightarrow>
            onLoad rt c now evt =
              [OnError \<lparr> err_name = ''RequestError'',
                         err_url = url (options c),
                         err_xhr = Handle (target evt),
                         err_code = JNum (Finite (real (status (target evt)))),
                         err_reason = JNull,
                         err_message = ''request: '' @ null_response_message (format (options c))
                                       @ '' ('' @ url (options c) @ '')'' \<rparr>])
       \<and> (\<not> is_null (decode rt (format (options c)) (target evt)) \<longrightarrow>
            onLoad rt c now evt =
              [OnNext (if withMetadata (options c)
                       then Outcome
                         \<lparr> out_blob = decode rt (format (options c)) (target evt),
                           out_size = total evt,
                           out_duration = now - sent c,
                           out_headers = map_option (getResponseHeadersList (target evt))
                                           (responseHeaders (options c)),
                           out_url = (if responseURL (target evt) \<noteq> [] then responseURL (target evt)
                                      else url (options c)),
                           out_xhr = target evt \<rparr>
                       else Bare (decode rt (format (options c)) (target evt))),
               OnCompleted])
       \<and> (\<forall>p. OnNext (Bare p) \<in> set (onLoad rt c now evt) \<longrightarrow> \<not> is_null p)
       \<and> (\<forall>out. OnNext (Outcome out) \<in> set (onLoad rt c now evt) \<longrightarrow> \<not> is_null (out_blob out))"
proof -
  have a: "format opts = Some ''document'' \<longrightarrow>
            Set_responseType ''text'' \<in> set (fst (subscribe opts x0 t0)) \<and>
            Set_responseType ''document'' \<notin> set (fst (subscribe opts x0 t0))"
    by (simp add: subscribe_responseType)
  have b: "format (options c) = Some ''document'' \<longrightarrow>
            decode rt (format (options c)) (target evt) =
              DOMParser_parseFromString rt (responseText (target evt)) ''text/xml'' \<and>
            decode rt (format (options c)) (target evt\<lparr> getResponseHeader := g, response := b \<rparr>) =
              decode rt (format (options c)) (target evt)"
    by (simp add: decode_document)
  have c: "is_null (decode rt (format (options c)) (target evt)) \<longrightarrow>
            onLoad rt c now evt =
              [OnError \<lparr> err_name = ''RequestError'',
                         err_url = url (options c),
                         err_xhr = Handle (target evt),
                         err_code = JNum (Finite (real (status (target evt)))),
                         err_reason = JNull,
                         err_message = ''request: '' @ null_response_message (format (options c))
                                       @ '' ('' @ url (options c) @ '')'' \<rparr>]"
    using assms by (simp add: onLoad_success RequestError_def)
  have d: "\<not> is_null (decode rt (format (options c)) (target evt)) \<longrightarrow>
            onLoad rt c now evt =
              [OnNext (if withMetadata (options c)
                       then Outcome
                         \<lparr> out_blob = decode rt (format (options c)) (target evt),
                           out_size = total evt,
                           out_duration = now - sent c,
                           out_headers = map_option (getResponseHeadersList (target evt))
                                           (responseHeaders (options c)),
                           out_url = (if responseURL (target evt) \<noteq> [] then responseURL (target evt)
                                      else url (options c)),
                           out_xhr = target evt \<rparr>
                       else Bare (decode rt (format (options c)) (target evt))),
               OnCompleted]"
    using assms by (simp add: onLoad_success)
  have e: "\<forall>p. OnNext (Bare p) \<in> set (onLoad rt c now evt) \<longrightarrow> \<not> is_null p"
    using onLoad_no_null_payload by blast
  have f: "\<forall>out. OnNext (Outcome out) \<in> set (onLoad rt c now evt) \<longrightarrow> \<not> is_null (out_blob out)"
    using onLoad_no_null_payload by blast
  from a b c d e f show ?thesis by blast
qed

text \<open>C5 at a document request: the text \<^verbatim>\<open><a/>\<close> is parsed and delivered; a response that is
  null for the format text is an error.\<close>

theorem document_text_mode_and_null_payload_witness:
  \<open>200 \<le> status (target \<lparr> target = example_handle\<lparr> responseText := ''<a/>'' \<rparr>, total = 4 \<rparr>)
   \<and> status (target \<lparr> target = example_handle\<lparr> responseText := ''<a/>'' \<rparr>, total = 4 \<rparr>) < 300
   \<and> format (example_options\<lparr> format := Some ''document'' \<rparr>) = Some ''document''
   \<and> fst (subscribe (example_options\<lparr> format := Some ''document'' \<rparr>) example_handle 1000) =
       [Open ''GET'' ''http://h/a'' True, Set_responseType ''text'',
        AddEventListener ''load'' Listener_onLoad False,
        AddEventListener ''error'' Listener_onError False, Send JUndefined]
   \<and> Set_responseType ''document''
        \<notin> set (fst (subscribe (example_options\<lparr> format := Some ''document'' \<rparr>) example_handle 1000))
   \<and> onLoad example_runtime
        (example_subscription\<lparr> options := example_options\<lparr> format := Some ''document'',
                                                              withMetadata := False \<rparr> \<rparr>)
        1005 \<lparr> target = example_handle\<lparr> responseText := ''<a/>'' \<rparr>, total = 4 \<rparr> =
       [OnNext (Bare (Doc [Element ''a'' []])), OnCompleted]
   \<and> is_null (decode example_runtime (format example_options)
                (target \<lparr> target = example_handle\<lparr> response := Val JNull \<rparr>, total = 0 \<rparr>))
   \<and> onLoad example_runtime example_subscription 1005
        \<lparr> target = example_handle\<lparr> response := Val JNull \<rparr>, total = 0 \<rparr> =
       [OnError \<lparr> err_name = ''RequestError'',
                  err_url = ''http://h/a'',
                  err_xhr = Handle (example_handle\<lparr> response := Val JNull \<rparr>),
                  err_code = JNum (Finite 200),
                  err_reason = JNull,
                  err_message =
                    ''request: null response with format "undefined" (error while parsing or wrong content-type) (http://h/a)'' \<rparr>]\<close>
  using document_text_mode_and_null_payload
          [where evt = "\<lparr> target = example_handle\<lparr> responseText := ''<a/>'' \<rparr>, total = 4 \<rparr>"
             and opts = "example_options\<lparr> format := Some ''document'' \<rparr>"
             and ?x0.0 = example_handle and ?t0.0 = 1000
             and c = "example_subscription\<lparr> options := example_options\<lparr> format := Some ''document'',
                                                                       withMetadata := False \<rparr> \<rparr>"
             and rt = example_runtime and now = 1005]
        document_text_mode_and_null_payload
          [where evt = "\<lparr> target = example_handle\<lparr> response := Val JNull \<rparr>, total = 0 \<rparr>"
             and opts = example_options and ?x0.0 = example_handle and ?t0.0 = 1000
             and c = example_subscription and rt = example_runtime and now = 1005]
  by (simp add: example_handle_def example_subscription_def example_options_def
        example_runtime_def subscribe_def or_else_def decode_def null_response_message_def)

text \<open>
  C4. For a request with the format json whose response is still a string, on a status in
  [200, 300): the string is given to \<^verbatim>\<open>JSON.parse\<close>; what it returns is the payload; when it
  throws, \<^verbatim>\<open>toJSONForIE\<close> returns null and no exception leaves the decoding. A null payload,
  from a parse that threw or from the text "null", is reported by the same single onError,
  with a RequestError whose message names the format json. A payload that is not null is
  delivered by onNext.
\<close>

theorem json_text_payload:
  assumes "format (options c) = Some ''json''"
      and "200 \<le> status (target evt)" and "status (target evt) < 300"
      and "response (target evt) = Val (JStr str)"
  shows \<open>(\<forall>v. JSON_parse rt str = Some v \<longrightarrow>
             toJSONForIE rt str = v \<and> decode rt (format (options c)) (target evt) = Val v)
       \<and> (JSON_parse rt str = None \<longrightarrow>
             toJSONForIE rt str = JNull \<and> decode rt (format (options c)) (target evt) = Val JNull)
       \<and> (JSON_parse rt str = None \<or> JSON_parse rt str = Some JNull \<longrightarrow>
             onLoad rt c now evt =
               [OnError \<lparr> err_name = ''RequestError'',
                          err_url = url (options c),
                          err_xhr = Handle (target evt),
                          err_code = JNum (Finite (real (status (target evt)))),
                          err_reason = JNull,
                          err_message =
                            ''request: null response with format "json" (error while parsing or wrong content-type) (''
                            @ url (options c) @ '')'' \<rparr>])
       \<and> (\<forall>v. JSON_parse rt str = Some v \<and> \<not> is_null (Val v) \<and> \<not> withMetadata (options c) \<longrightarrow>
             onLoad rt c now evt = [OnNext (Bare (Val v)), OnCompleted])\<close>
  using assms
  by (auto simp add: onLoad_success decode_json_text toJSONForIE_def RequestError_def
        null_response_message_def)

text \<open>C4 at the two texts of the specification, on a host whose \<^verbatim>\<open>JSON.parse\<close> reads the
  first as \<^verbatim>\<open>{a: 1}\<close> and throws on the second.\<close>

theorem json_text_payload_witness:
  \<open>JSON_parse example_runtime ''{"a":1}'' = Some (JObj [(''a'', JNum (Finite 1))])
   \<and> JSON_parse example_runtime ''not json'' = None
   \<and> toJSONForIE example_runtime ''{"a":1}'' = JObj [(''a'', JNum (Finite 1))]
   \<and> toJSONForIE example_runtime ''not json'' = JNull
   \<and> onLoad example_runtime
        (example_subscription\<lparr> options := example_options\<lparr> format := Some ''json'',
                                                              withMetadata := False \<rparr> \<rparr>)
        1005 \<lparr> target = example_handle\<lparr> response := Val (JStr ''{"a":1}'') \<rparr>, total = 7 \<rparr> =
       [OnNext (Bare (Val (JObj [(''a'', JNum (Finite 1))]))), OnCompleted]
   \<and> onLoad example_runtime
        (example_subscription\<lparr> options := example_options\<lparr> format := Some ''json'',
                                                              withMetadata := False \<rparr> \<rparr>)
        1005 \<lparr> target = example_handle\<lparr> response := Val (JStr ''not json'') \<rparr>, total = 8 \<rparr> =
       [OnError \<lparr> err_name = ''RequestError'',
                  err_url = ''http://h/a'',
                  err_xhr = Handle (example_handle\<lparr> response := Val (JStr ''not json'') \<rparr>),
                  err_code = JNum (Finite 200),
                  err_reason = JNull,
                  err_message =
                    ''request: null response with format "json" (error while parsing or wrong content-type) (http://h/a)'' \<rparr>]\<close>
  using json_text_payload
          [where c = "example_subscription\<lparr> options := example_options\<lparr> format := Some ''json'',
                                                                    withMetadata := False \<rparr> \<rparr>"
             and evt = \<open>\<lparr> target = example_handle\<lparr> response := Val (JStr ''{"a":1}'') \<rparr>, total = 7 \<rparr>\<close>
             and str = \<open>''{"a":1}''\<close> and rt = example_runtime and now = 1005]
        json_text_payload
          [where c = "example_subscription\<lparr> options := example_options\<lparr> format := Some ''json'',
                                                                    withMetadata := False \<rparr> \<rparr>"
             and evt = "\<lparr> target = example_handle\<lparr> response := Val (JStr ''not json'') \<rparr>, total = 8 \<rparr>"
             and str = "''not json''" and rt = example_runtime and now = 1005]
  by (simp add: example_handle_def example_subscription_def example_options_def
        example_runtime_def)

subsection \<open>The outcome record\<close>

lemma headers_loop_plain:
  "''__proto__'' \<notin> set names \<Longrightarrow>
   own_properties (getResponseHeadersList_loop x names hdrs) =
     (\<lambda>n. if n \<in> set names then Some (getResponseHeader x n) else own_properties hdrs n)
   \<and> prototype_is_null (getResponseHeadersList_loop x names hdrs) = prototype_is_null hdrs"
proof (induction names arbitrary: hdrs)
  case Nil
  then show ?case by simp
next
  case (Cons a names)
  then have "a \<noteq> ''__proto__''" and rest: "''__proto__'' \<notin> set names" by auto
  then show ?case
    using Cons.IH [OF rest] by (auto simp add: fun_eq_iff)
qed

text \<open>For a list of names without \<^verbatim>\<open>__proto__\<close> the object has exactly the names of the list as
  its keys, each with the value the handle reports for it.\<close>

lemma getResponseHeadersList_plain:
  assumes "''__proto__'' \<notin> set names"
  shows "dom (own_properties (getResponseHeadersList x names)) = set names"
    and "\<forall>n \<in> set names.
           own_properties (getResponseHeadersList x names) n = Some (getResponseHeader x n)"
    and "\<not> prototype_is_null (getResponseHeadersList x names)"
  using headers_loop_plain [OF assms, of x "\<lparr> own_properties = Map.empty, prototype_is_null = False \<rparr>"]
  by (auto simp add: getResponseHeadersList_def dom_def)

text \<open>
  C9. The headers of the outcome record do not always hold the requested names: for the
  list of names \<^verbatim>\<open>["__proto__"]\<close> and a handle that reports the value "v" for that name,
  the load listener (status 200, payload "hello", withMetadata) delivers an outcome record
  whose headers object has no key at all. The assignment \<^verbatim>\<open>headers["__proto__"] = "v"\<close> on
  the object literal stores nothing.
\<close>

theorem proto_header_not_captured:
  "getResponseHeader
     (example_handle\<lparr> getResponseHeader := (\<lambda>n. if n = ''__proto__'' then Some ''v'' else None) \<rparr>)
     ''__proto__'' = Some ''v''
   \<and> onLoad example_runtime
        (example_subscription\<lparr> options := example_options\<lparr> responseHeaders := Some [''__proto__''] \<rparr> \<rparr>)
        1005
        \<lparr> target = example_handle\<lparr> getResponseHeader :=
                                      (\<lambda>n. if n = ''__proto__'' then Some ''v'' else None) \<rparr>,
          total = 5 \<rparr> =
       [OnNext (Outcome
          \<lparr> out_blob = Val (JStr ''hello''),
            out_size = 5,
            out_duration = 5,
            out_headers = Some \<lparr> own_properties = Map.empty, prototype_is_null = False \<rparr>,
            out_url = ''http://h/final'',
            out_xhr = example_handle\<lparr> getResponseHeader :=
                                       (\<lambda>n. if n = ''__proto__'' then Some ''v'' else None) \<rparr> \<rparr>),
        OnCompleted]
   \<and> dom (own_properties
            (getResponseHeadersList
               (example_handle\<lparr> getResponseHeader :=
                                  (\<lambda>n. if n = ''__proto__'' then Some ''v'' else None) \<rparr>)
               [''__proto__''])) = {}"
  by (simp add: onLoad_def Let_def getResponseHeadersList_def example_handle_def
        example_subscription_def example_options_def)

subsection \<open>Teardown\<close>

text \<open>
  C2. Subscribing leaves the new handle in the variable \<^verbatim>\<open>xhr\<close>. While \<^verbatim>\<open>xhr\<close> holds the handle,
  the teardown function returns normally and leaves \<^verbatim>\<open>xhr\<close> null and the other variables as
  they were, whatever the readyState. Among its calls on the handle there is an abort
  exactly when the readyState is strictly between 0 and 4, and then exactly one; the load
  listener and the error listener are removed exactly in that case as well. At readyState 0
  and from readyState 4 on (the state in which the transport fires the load and error
  events, so the state after a terminal notification) it makes no call on the handle at all.
\<close>

theorem teardown_aborts_in_flight:
  assumes "xhr c = Some x"
  shows "xhr (snd (subscribe opts x0 t0)) = Some x0 \<and>
    (\<exists>calls. teardown c = Inr (calls, c\<lparr> xhr := None \<rparr>) \<and>
     xhr (c\<lparr> xhr := None \<rparr>) = None \<and>
     (Abort \<in> set calls \<longleftrightarrow> 0 < readyState x \<and> readyState x < 4) \<and>
     count_list calls Abort = (if 0 < readyState x \<and> readyState x < 4 then 1 else 0) \<and>
     (RemoveEventListener ''load'' Listener_onLoad \<in> set calls
        \<longleftrightarrow> 0 < readyState x \<and> readyState x < 4) \<and>
     (RemoveEventListener ''error'' Listener_onError \<in> set calls
        \<longleftrightarrow> 0 < readyState x \<and> readyState x < 4) \<and>
     (readyState x = 0 \<or> 4 \<le> readyState x \<longrightarrow> calls = []))"
  using assms by (simp add: teardown_def subscribe_def)

text \<open>C2 on a handle that is loading (readyState 3) and on one that is done (readyState 4),
  after the load listener has delivered its notifications.\<close>

theorem teardown_aborts_in_flight_witness:
  "snd (subscribe example_options example_handle 1000) = example_subscription
   \<and> xhr (example_subscription\<lparr> xhr := Some (example_handle\<lparr> readyState := 3 \<rparr>) \<rparr>)
     = Some (example_handle\<lparr> readyState := 3 \<rparr>)
   \<and> teardown (example_subscription\<lparr> xhr := Some (example_handle\<lparr> readyState := 3 \<rparr>) \<rparr>) =
       Inr ([RemoveEventListener ''load'' Listener_onLoad,
             RemoveEventListener ''error'' Listener_onError, Abort],
            example_subscription\<lparr> xhr := None \<rparr>)
   \<and> xhr example_subscription = Some example_handle
   \<and> readyState example_handle = 4
   \<and> onLoad example_runtime
        (example_subscription\<lparr> options := example_options\<lparr> withMetadata := False \<rparr> \<rparr>)
        1005 \<lparr> target = example_handle, total = 5 \<rparr> =
       [OnNext (Bare (Val (JStr ''hello''))), OnCompleted]
   \<and> teardown (example_subscription\<lparr> options := example_options\<lparr> withMetadata := False \<rparr> \<rparr>) =
       Inr ([], example_subscription\<lparr> options := example_options\<lparr> withMetadata := False \<rparr>,
                                      xhr := None \<rparr>)"
  using teardown_aborts_in_flight
          [where c = "example_subscription\<lparr> xhr := Some (example_handle\<lparr> readyState := 3 \<rparr>) \<rparr>"
             and x = "example_handle\<lparr> readyState := 3 \<rparr>"]
        teardown_aborts_in_flight
          [where c = "example_subscription\<lparr> options := example_options\<lparr> withMetadata := False \<rparr> \<rparr>"
             and x = example_handle]
  by (simp add: teardown_def onLoad_def subscribe_def example_handle_def
        example_subscription_def example_options_def)

section \<open>The remote-call adapter: what restCallMethod does to the options\<close>

lemma GetSubstitution_plain:
  "\<not> replacement_pattern repl \<Longrightarrow> GetSubstitution m p f repl = repl"
  by (induction m p f repl rule: GetSubstitution.induct) auto

lemma find_payload:
  \<open>find_first ''{payload}'' [] METHOD_CALL_XML =
     Some (''<RestCallMethod xmlns:i="http://www.w3.org/2001/XMLSchema-instance">'',
           ''</RestCallMethod>'')\<close>
  by (simp add: METHOD_CALL_XML_def)

lemma String_replace_payload:
  \<open>\<not> replacement_pattern xml \<Longrightarrow>
   String_replace METHOD_CALL_XML ''{payload}'' xml =
     ''<RestCallMethod xmlns:i="http://www.w3.org/2001/XMLSchema-instance">'' @ xml
     @ ''</RestCallMethod>''\<close>
  by (simp add: String_replace_def find_payload GetSubstitution_plain)

lemma restCallMethod_heap:
  "restCallMethod rt h r =
     (h(r := (h r)\<lparr> http_method := Some ''POST'',
                    headers := Some [(''Content-Type'', ''application/xml'')],
                    data := JStr (String_replace METHOD_CALL_XML ''{payload}''
                                    (objToXML rt (data (h r)))),
                    format := Some ''document'' \<rparr>),
      Mapped (Created r) r)"
  by (simp add: Let_def)

text \<open>
  C3, as the specification states it, fails on "never mutates the caller's original spec
  object": the caller's object at reference 0 has no method and the format
  rest-call-method before the call, and the method POST and the format document after it;
  the observable returned is created over that same object. It also fails on the data for
  a serialization with a replacement pattern: for the data \<^verbatim>\<open>{a: "$&"}\<close> the serialization is
  \<^verbatim>\<open><a>$&amp;</a>\<close>, and the data after the call holds the text \<^verbatim>\<open>{payload}\<close> where the
  serialization has \<^verbatim>\<open>$&\<close>.
\<close>

theorem restCallMethod_mutates_counterexample:
  \<open>http_method (example_heap 0) = None
   \<and> format (example_heap 0) = Some ''rest-call-method''
   \<and> http_method (fst (restCallMethod example_runtime example_heap 0) 0) = Some ''POST''
   \<and> format (fst (restCallMethod example_runtime example_heap 0) 0) = Some ''document''
   \<and> fst (restCallMethod example_runtime example_heap 0) 0 \<noteq> example_heap 0
   \<and> snd (restCallMethod example_runtime example_heap 0) = Mapped (Created 0) 0
   \<and> objToXML example_runtime (JObj [(''a'', JStr ''$&'')]) = ''<a>$&amp;</a>''
   \<and> data (fst (restCallMethod example_runtime
                    (example_heap(0 := (example_heap 0)\<lparr> data := JObj [(''a'', JStr ''$&'')] \<rparr>)) 0) 0) =
       JStr ''<RestCallMethod xmlns:i="http://www.w3.org/2001/XMLSchema-instance"><a>{payload}amp;</a></RestCallMethod>''\<close>
  by (simp add: restCallMethod_heap example_heap_def example_options_def String_replace_def
        find_payload element_def escapeXml_JStr)

text \<open>
  C3, amended. For every options object, \<^verbatim>\<open>restCallMethod\<close> overwrites four fields of the
  caller's object in place and creates the request over that same object: the method
  becomes POST, the headers the single header Content-Type: application/xml, the format
  document and the data a string. The other fields of the object and all other objects stay
  as they were. When the XML serialization of the data field has no replacement pattern (no
  dollar sign with a dollar sign, an ampersand, a backquote or an apostrophe right after
  it), that string is the serialization inside the fixed RestCallMethod root element.
\<close>

theorem restCallMethod_overrides:
  \<open>\<exists>body.
     restCallMethod rt h r =
       (h(r := (h r)\<lparr> http_method := Some ''POST'',
                      headers := Some [(''Content-Type'', ''application/xml'')],
                      data := JStr body,
                      format := Some ''document'' \<rparr>),
        Mapped (Created r) r)
     \<and> (\<not> replacement_pattern (objToXML rt (data (h r))) \<longrightarrow>
          body = ''<RestCallMethod xmlns:i="http://www.w3.org/2001/XMLSchema-instance">''
                 @ objToXML rt (data (h r)) @ ''</RestCallMethod>'')\<close>
proof (intro exI conjI impI)
  show "restCallMethod rt h r =
       (h(r := (h r)\<lparr> http_method := Some ''POST'',
                      headers := Some [(''Content-Type'', ''application/xml'')],
                      data := JStr (String_replace METHOD_CALL_XML ''{payload}''
                                      (objToXML rt (data (h r)))),
                      format := Some ''document'' \<rparr>),
        Mapped (Created r) r)"
    by (rule restCallMethod_heap)
next
  assume "\<not> replacement_pattern (objToXML rt (data (h r)))"
  then show \<open>String_replace METHOD_CALL_XML ''{payload}'' (objToXML rt (data (h r))) =
      ''<RestCallMethod xmlns:i="http://www.w3.org/2001/XMLSchema-instance">''
      @ objToXML rt (data (h r)) @ ''</RestCallMethod>''\<close>
    by (rule String_replace_payload)
qed

text \<open>The amended C3 on the data \<^verbatim>\<open>{a: "<x>"}\<close> and on the data \<^verbatim>\<open>{price: "$5"}\<close>, whose
  dollar sign starts no replacement pattern.\<close>

theorem restCallMethod_overrides_witness:
  \<open>\<not> replacement_pattern (objToXML example_runtime (data (example_heap 0)))
   \<and> restCallMethod example_runtime example_heap 0 =
       (example_heap(0 :=
          \<lparr> url = ''http://h/a'', http_method = Some ''POST'',
            data = JStr ''<RestCallMethod xmlns:i="http://www.w3.org/2001/XMLSchema-instance"><a>&lt;x&gt;</a></RestCallMethod>'',
            headers = Some [(''Content-Type'', ''application/xml'')],
            format = Some ''document'', withMetadata = True,
            responseHeaders = Some [''X-Total''], ScriptInfo = None \<rparr>),
        Mapped (Created 0) 0)
   \<and> \<not> replacement_pattern (objToXML example_runtime (JObj [(''price'', JStr ''$5'')]))
   \<and> restCallMethod example_runtime
        (example_heap(0 := (example_heap 0)\<lparr> data := JObj [(''price'', JStr ''$5'')] \<rparr>)) 0 =
       (example_heap(0 :=
          \<lparr> url = ''http://h/a'', http_method = Some ''POST'',
            data = JStr ''<RestCallMethod xmlns:i="http://www.w3.org/2001/XMLSchema-instance"><price>$5</price></RestCallMethod>'',
            headers = Some [(''Content-Type'', ''application/xml'')],
            format = Some ''document'', withMetadata = True,
            responseHeaders = Some [''X-Total''], ScriptInfo = None \<rparr>),
        Mapped (Created 0) 0)\<close>
  using restCallMethod_overrides [where rt = example_runtime and h = example_heap and r = 0]
        restCallMethod_overrides
          [where rt = example_runtime
             and h = \<open>example_heap(0 := (example_heap 0)\<lparr> data := JObj [(''price'', JStr ''$5'')] \<rparr>)\<close>
             and r = 0]
  by (simp add: restCallMethod_heap String_replace_payload example_heap_def example_options_def
        element_def escapeXml_JStr)

section \<open>The response envelope: what RestCallResult returns and throws\<close>

text \<open>
  C6, as the specification states it, fails on "Status child": in the envelope
  \<^verbatim>\<open><RestCallResult><Output><Status>-1</Status></Output><Status>0</Status></RestCallResult>\<close>
  the Status child of the RestCallResult element holds the integer 0, which is not negative,
  and \<^verbatim>\<open>RestCallResult\<close> throws a RestCallMethodError with the code -1: \<^verbatim>\<open>querySelector\<close>
  returns the first Status element among all descendants, here the one inside Output.
\<close>

theorem RestCallResult_status_child_counterexample:
  "child_element ''Status''
     (Element ''RestCallResult''
        [Element ''Output'' [Element ''Status'' [Text ''-1'']], Element ''Status'' [Text ''0'']])
     = Some (Element ''Status'' [Text ''0''])
   \<and> ToNumber example_runtime (textContent (Element ''Status'' [Text ''0''])) = Finite 0
   \<and> RestCallResult example_runtime
        (Doc [Element ''RestCallResult''
                [Element ''Output'' [Element ''Status'' [Text ''-1'']], Element ''Status'' [Text ''0'']]])
        ''http://h/rpc'' None
      = Inl (Thrown (RestCallMethodError example_runtime ''http://h/rpc'' (JNum (Finite (- 1)))
                       None None))"
  by (simp add: child_element_def RestCallResult_def Let_def querySelector_def
        example_runtime_def)

text \<open>
  C6, amended. For every parsed document in which \<^verbatim>\<open>querySelector\<close> finds a RestCallResult
  element (the first in document order) and, among the descendants of that element, a Status
  element (the first in document order): with the status being the number that the unary
  \<^verbatim>\<open>+\<close> reads from the text of that Status element, \<^verbatim>\<open>RestCallResult\<close> throws a
  RestCallMethodError with the status as its code and the url it was given if the status
  is less than zero, and otherwise returns the record of the first Output element among the
  descendants of the RestCallResult element (null if there is none) and the status. In
  particular, when the text reads as the integer n, it throws with the code n if and only
  if n is negative, and otherwise returns the status n.
\<close>

theorem RestCallResult_status:
  assumes "first_match ''RestCallResult'' nodes = Some rc"
      and "querySelector ''Status'' rc = Some st"
  shows "RestCallResult rt (Doc nodes) u scriptInfo =
     (if less_than_zero (ToNumber rt (textContent st)) then
        Inl (Thrown \<lparr> rcm_name = ''RestCallMethodError'',
                      rcm_url = u,
                      rcm_code = JNum (ToNumber rt (textContent st)),
                      rcm_message =
                        rcm_message (RestCallMethodError rt u (JNum (ToNumber rt (textContent st)))
                                       scriptInfo None) \<rparr>)
      else Inr \<lparr> rcr_output = querySelector ''Output'' rc,
                 rcr_status = ToNumber rt (textContent st) \<rparr>)
   \<and> (\<forall>n::int. ToNumber rt (textContent st) = Finite (of_int n) \<longrightarrow>
         RestCallResult rt (Doc nodes) u scriptInfo =
           (if n < 0 then
              Inl (Thrown \<lparr> rcm_name = ''RestCallMethodError'',
                            rcm_url = u,
                            rcm_code = JNum (Finite (of_int n)),
                            rcm_message =
                              rcm_message (RestCallMethodError rt u (JNum (Finite (of_int n)))
                                             scriptInfo None) \<rparr>)
            else Inr \<lparr> rcr_output = querySelector ''Output'' rc,
                       rcr_status = Finite (of_int n) \<rparr>))"
  using assms by (simp add: RestCallResult_def Let_def RestCallMethodError_def)

text \<open>The amended C6 on the two envelopes of the specification, Status -3 and Status 0, and
  on an envelope with the Status -1.5.\<close>

theorem RestCallResult_status_witness:
  "first_match ''RestCallResult''
     [Element ''RestCallResult'' [Element ''Status'' [Text ''-3''], Element ''Output'' [Text ''x'']]]
     = Some (Element ''RestCallResult'' [Element ''Status'' [Text ''-3''], Element ''Output'' [Text ''x'']])
   \<and> querySelector ''Status''
        (Element ''RestCallResult'' [Element ''Status'' [Text ''-3''], Element ''Output'' [Text ''x'']])
     = Some (Element ''Status'' [Text ''-3''])
   \<and> ToNumber example_runtime (textContent (Element ''Status'' [Text ''-3''])) = Finite (of_int (- 3))
   \<and> RestCallResult example_runtime
        (Doc [Element ''RestCallResult'' [Element ''Status'' [Text ''-3''], Element ''Output'' [Text ''x'']]])
        ''http://h/rpc'' None =
       Inl (Thrown \<lparr> rcm_name = ''RestCallMethodError'', rcm_url = ''http://h/rpc'',
                      rcm_code = JNum (Finite (- 3)),
                      rcm_message = ''restmethodcall: webservice error status -3 (http://h/rpc)'' \<rparr>)
   \<and> RestCallResult example_runtime
        (Doc [Element ''RestCallResult'' [Element ''Status'' [Text ''0''], Element ''Output'' [Text ''x'']]])
        ''http://h/rpc'' None =
       Inr \<lparr> rcr_output = Some (Element ''Output'' [Text ''x'']), rcr_status = Finite 0 \<rparr>
   \<and> RestCallResult example_runtime
        (Doc [Element ''RestCallResult'' [Element ''Status'' [Text ''-1.5''], Element ''Output'' [Text ''x'']]])
        ''http://h/rpc'' None =
       Inl (Thrown \<lparr> rcm_name = ''RestCallMethodError'', rcm_url = ''http://h/rpc'',
                      rcm_code = JNum (Finite (- 3 / 2)),
                      rcm_message = ''restmethodcall: webservice error status -1.5 (http://h/rpc)'' \<rparr>)"
  using RestCallResult_status
          [where nodes = "[Element ''RestCallResult'' [Element ''Status'' [Text ''-3''], Element ''Output'' [Text ''x'']]]"
             and rc = "Element ''RestCallResult'' [Element ''Status'' [Text ''-3''], Element ''Output'' [Text ''x'']]"
             and st = "Element ''Status'' [Text ''-3'']" and u = "''http://h/rpc''"
             and scriptInfo = None and rt = example_runtime]
        RestCallResult_status
          [where nodes = "[Element ''RestCallResult'' [Element ''Status'' [Text ''0''], Element ''Output'' [Text ''x'']]]"
             and rc = "Element ''RestCallResult'' [Element ''Status'' [Text ''0''], Element ''Output'' [Text ''x'']]"
             and st = "Element ''Status'' [Text ''0'']" and u = "''http://h/rpc''"
             and scriptInfo = None and rt = example_runtime]
        RestCallResult_status
          [where nodes = "[Element ''RestCallResult'' [Element ''Status'' [Text ''-1.5''], Element ''Output'' [Text ''x'']]]"
             and rc = "Element ''RestCallResult'' [Element ''Status'' [Text ''-1.5''], Element ''Output'' [Text ''x'']]"
             and st = "Element ''Status'' [Text ''-1.5'']" and u = "''http://h/rpc''"
             and scriptInfo = None and rt = example_runtime]
  by (simp add: querySelector_def RestCallMethodError_def example_runtime_def)

text \<open>
  C10, as stated, fails on "its Status child is absent": in the envelope
  \<^verbatim>\<open><RestCallResult><Output><Status>5</Status></Output></RestCallResult>\<close> the RestCallResult
  element has no Status child, and \<^verbatim>\<open>RestCallResult\<close> throws nothing: it returns the status 5
  of the Status element inside Output.
\<close>

theorem RestCallResult_missing_child_counterexample:
  "child_element ''Status''
     (Element ''RestCallResult'' [Element ''Output'' [Element ''Status'' [Text ''5'']]]) = None
   \<and> RestCallResult example_runtime
        (Doc [Element ''RestCallResult'' [Element ''Output'' [Element ''Status'' [Text ''5'']]]])
        ''http://h/rpc'' None
      = Inr \<lparr> rcr_output = Some (Element ''Output'' [Element ''Status'' [Text ''5'']]),
              rcr_status = Finite 5 \<rparr>"
  by (simp add: child_element_def RestCallResult_def Let_def querySelector_def
        example_runtime_def)

text \<open>
  C10, amended. On a parsed document \<^verbatim>\<open>RestCallResult\<close> throws the engine's TypeError (a
  property read on null), which is not a RestCallMethodError, exactly when the document has
  no RestCallResult element or the first RestCallResult element has no Status element among
  its descendants. With both present it never throws a TypeError; the contract of C6 is for
  such documents.
\<close>

theorem RestCallResult_TypeError_iff:
  "(RestCallResult rt (Doc nodes) u scriptInfo = Inl TypeError) =
     (first_match ''RestCallResult'' nodes = None \<or>
      (\<exists>rc. first_match ''RestCallResult'' nodes = Some rc \<and> querySelector ''Status'' rc = None))"
  by (auto simp add: RestCallResult_def Let_def split: option.splits)

text \<open>The amended C10 on a document without a RestCallResult element and on one whose
  RestCallResult element has no Status element.\<close>

theorem RestCallResult_TypeError_witness:
  "first_match ''RestCallResult'' [Element ''Fault'' [Text ''x'']] = None
   \<and> RestCallResult example_runtime (Doc [Element ''Fault'' [Text ''x'']]) ''http://h/rpc'' None
       = Inl TypeError
   \<and> querySelector ''Status'' (Element ''RestCallResult'' [Element ''Output'' []]) = None
   \<and> RestCallResult example_runtime (Doc [Element ''RestCallResult'' [Element ''Output'' []]])
        ''http://h/rpc'' None
       = Inl TypeError"
  using RestCallResult_TypeError_iff
          [where nodes = "[Element ''Fault'' [Text ''x'']]" and u = "''http://h/rpc''"
             and scriptInfo = None and rt = example_runtime]
        RestCallResult_TypeError_iff
          [where nodes = "[Element ''RestCallResult'' [Element ''Output'' []]]"
             and u = "''http://h/rpc''" and scriptInfo = None and rt = example_runtime]
  by (simp add: querySelector_def)

end
